theory Spec2Isabelle
  imports Complex_Main
begin

section \<open>JavaScript values and strings\<close>

text \<open>
  Values of untyped fields (\<open>any\<close>) and of the entries of a patch object. A finite number
  is a rational; \<open>NaN\<close> is kept apart. An object is its list of entries, in insertion
  order.
\<close>

datatype jsval =
    Undefined
  | Null
  | Bool bool
  | Num rat
  | NaN
  | Str string
  | Arr "jsval list"
  | Obj "(string \<times> jsval) list"

type_synonym jsobj = "(string \<times> jsval) list"

text \<open>Truthiness, as \<open>if (v)\<close> and \<open>!v\<close> test it.\<close>

fun truthy :: "jsval \<Rightarrow> bool" where
  "truthy Undefined = False"
| "truthy Null = False"
| "truthy (Bool b) = b"
| "truthy (Num r) = (r \<noteq> 0)"
| "truthy NaN = False"
| "truthy (Str s) = (s \<noteq> [])"
| "truthy (Arr xs) = True"
| "truthy (Obj kvs) = True"

text \<open>\<open>Array.isArray\<close>.\<close>

fun isArray :: "jsval \<Rightarrow> bool" where
  "isArray (Arr xs) = True"
| "isArray v = False"

text \<open>Reading a property: \<open>undefined\<close> when the object has no such entry.\<close>

definition get_prop :: "jsobj \<Rightarrow> string \<Rightarrow> jsval" where
  "get_prop obj k = (case map_of obj k of None \<Rightarrow> Undefined | Some v \<Rightarrow> v)"

text \<open>
  Writing a property (an assignment, or a later entry of an object literal with a
  spread): an existing entry keeps its place, a new one goes to the end.
\<close>

fun set_prop :: "string \<Rightarrow> jsval \<Rightarrow> jsobj \<Rightarrow> jsobj" where
  "set_prop k v [] = [(k, v)]"
| "set_prop k v ((k', v') # kvs) =
     (if k' = k then (k, v) # kvs else (k', v') # set_prop k v kvs)"

text \<open>\<open>String.prototype.startsWith\<close> and \<open>String.prototype.includes\<close>.\<close>

definition startsWith :: "string \<Rightarrow> string \<Rightarrow> bool" where
  "startsWith s p = (take (length p) s = p)"

fun includes_str :: "string \<Rightarrow> string \<Rightarrow> bool" where
  "includes_str [] sub = (sub = [])"
| "includes_str (c # cs) sub = (startsWith (c # cs) sub \<or> includes_str cs sub)"

text \<open>
  Template literals print an integer in decimal. (The integers printed here are whole
  minutes and hours, far below the range where JavaScript switches to exponents.)
\<close>

definition digit_char :: "nat \<Rightarrow> char" where
  "digit_char n = ''0123456789'' ! (n mod 10)"

fun string_of_nat :: "nat \<Rightarrow> string" where
  "string_of_nat n =
     (if n < 10 then [digit_char n] else string_of_nat (n div 10) @ [digit_char (n mod 10)])"

definition string_of_int :: "int \<Rightarrow> string" where
  "string_of_int i = (if i < 0 then CHR ''-'' # string_of_nat (nat (- i)) else string_of_nat (nat i))"

text \<open>The remainder operator \<open>%\<close>: it truncates, the result has the sign of the dividend.\<close>

definition js_rem :: "int \<Rightarrow> int \<Rightarrow> int" where
  "js_rem a b = sgn a * (\<bar>a\<bar> mod \<bar>b\<bar>)"

section \<open>Products and the local collection\<close>

text \<open>
  The module \<open>../data/products\<close> is not among the sources: what its dynamic import
  gives is a parameter of \<open>fetchProducts\<close>, and a demo product has the fields that
  \<open>fetchProducts\<close> reads, optional where the code guards them.
\<close>

record DemoAvailability =
  type' :: string

record DemoProduct =
  id' :: string
  name :: string
  category :: string
  price :: rat
  originalPrice :: "rat option"
  description :: string
  image :: "string option"
  isActive :: "bool option"
  is_weighable :: "bool option"
  pricePerGram :: "rat option"
  complementGroups :: jsval
  sizes :: jsval
  scheduledDays :: jsval
  availability :: "DemoAvailability option"

text \<open>
  The interface \<open>DeliveryProduct\<close>. The interface declares \<open>id: string\<close>, but rows
  reach the collection unchecked from the backend and the code itself tests \<open>!data.id\<close>,
  so \<open>id'\<close> is optional here: \<open>None\<close> is a row without an id. The category is a
  string at run time (the union of literals is erased, and the demo data is cast into
  it). The field is written \<open>id'\<close> and a parameter \<open>id\<close> of the source is written
  \<open>pid\<close>, since \<open>id\<close> is the identity function of HOL.
\<close>

record DeliveryProduct =
  id' :: "string option"
  name :: string
  category :: string
  price :: rat
  original_price :: "rat option"
  description :: string
  image_url :: "string option"
  is_active :: bool
  is_weighable :: bool
  price_per_gram :: "rat option"
  complement_groups :: jsval
  sizes :: jsval
  scheduled_days :: jsval
  availability_type :: "string option"
  created_at :: string
  updated_at :: string

text \<open>\<open>!data.id\<close>: the id is missing or the empty string.\<close>

definition no_id :: "DeliveryProduct \<Rightarrow> bool" where
  "no_id d = (case id' d of None \<Rightarrow> True | Some s \<Rightarrow> s = [])"

section \<open>The realtime subscription\<close>

text \<open>
  The payload of a \<open>postgres_changes\<close> notification. Of \<open>old\<close> the handler reads the
  id only.
\<close>

record payload =
  eventType :: string
  new :: "DeliveryProduct option"
  old :: "DeliveryProduct option"

text \<open>
  The callback registered on the channel \<open>delivery_products_changes\<close>, as the function
  it applies to the products list through \<open>setProducts\<close>. The hook subscribes only when
  the credentials are configured (\<open>supabase_not_configured\<close> below is false).
\<close>

definition on_postgres_changes :: "payload \<Rightarrow> DeliveryProduct list \<Rightarrow> DeliveryProduct list" where
  "on_postgres_changes pl prev =
     (if eventType pl = ''INSERT'' then
        (case new pl of
           None \<Rightarrow> prev
         | Some n \<Rightarrow>
             (let exists = list_ex (\<lambda>p. id' p = id' n) prev
              in if exists then prev else prev @ [n]))
      else if eventType pl = ''UPDATE'' then
        (case new pl of
           None \<Rightarrow> prev
         | Some n \<Rightarrow> map (\<lambda>p. if id' p = id' n then n else p) prev)
      else if eventType pl = ''DELETE'' then
        (case old pl of
           None \<Rightarrow> prev
         | Some d \<Rightarrow> filter (\<lambda>p. id' p \<noteq> id' d) prev)
      else prev)"

section \<open>The backend and the environment\<close>

text \<open>
  \<open>import.meta.env\<close>: a variable is a string or is not set. The two tests the hook makes
  on it: the one of \<open>fetchProducts\<close> (and of the subscription), and the shorter one of
  \<open>createProduct\<close> and \<open>updateProduct\<close>.
\<close>

record env =
  VITE_SUPABASE_URL :: "string option"
  VITE_SUPABASE_ANON_KEY :: "string option"

definition supabase_not_configured :: "env \<Rightarrow> bool" where
  "supabase_not_configured e =
     (case VITE_SUPABASE_URL e of
        None \<Rightarrow> True
      | Some supabaseUrl \<Rightarrow>
          supabaseUrl = [] \<or>
          (case VITE_SUPABASE_ANON_KEY e of
             None \<Rightarrow> True
           | Some supabaseKey \<Rightarrow>
               supabaseKey = [] \<or>
               supabaseUrl = ''your_supabase_url_here'' \<or>
               supabaseKey = ''your_supabase_anon_key_here'' \<or>
               includes_str supabaseUrl ''placeholder''))"

definition supabase_url_unusable :: "env \<Rightarrow> bool" where
  "supabase_url_unusable e =
     (case VITE_SUPABASE_URL e of
        None \<Rightarrow> True
      | Some supabaseUrl \<Rightarrow> supabaseUrl = [] \<or> includes_str supabaseUrl ''placeholder'')"

text \<open>
  What an \<open>await\<close> on a query gives: the promise rejects with a thrown value, or resolves
  to \<open>{ data, error }\<close>. A thrown value is an \<open>Error\<close> with its message, or something that
  is not an instance of \<open>Error\<close>. Whether the client's error object is an instance of
  \<open>Error\<close> depends on the client library, so the error object says it.
\<close>

datatype thrown = Error string | NotAnError

datatype 'a awaited = Rejected thrown | Resolved 'a

record PostgrestError =
  code :: string
  message :: string
  instanceof_Error :: bool

record 'a response =
  data :: 'a
  error :: "PostgrestError option"

text \<open>\<open>throw error\<close> with the client's error object.\<close>

definition throw_error :: "PostgrestError \<Rightarrow> thrown" where
  "throw_error e = (if instanceof_Error e then Error (message e) else NotAnError)"

text \<open>\<open>err instanceof Error ? err.message : fallback\<close>.\<close>

fun message_or :: "thrown \<Rightarrow> string \<Rightarrow> string" where
  "message_or (Error m) fallback = m"
| "message_or NotAnError fallback = fallback"

text \<open>
  The queries the hook sends to the table \<open>delivery_products\<close>, and the backend as the
  answers it gives them. The backend is not part of the repository: any answer is possible.
\<close>

record id_row =
  row_id :: string

datatype request =
    Select_all_order_name
  | Insert_select_single jsobj
  | Select_id_maybeSingle string
  | Update_eq_select_single string jsobj
  | Delete_eq string

record backend =
  select_all_order_name :: "DeliveryProduct list option response awaited"
  insert_select_single :: "jsobj \<Rightarrow> DeliveryProduct option response awaited"
  select_id_maybeSingle :: "string \<Rightarrow> id_row option response awaited"
  update_eq_select_single :: "string \<Rightarrow> jsobj \<Rightarrow> DeliveryProduct option response awaited"
  delete_eq :: "string \<Rightarrow> unit response awaited"

section \<open>The hook \<open>useDeliveryProducts\<close>\<close>

text \<open>
  The messages of the hook's errors. The source writes them in Portuguese; the accents
  are dropped here.
\<close>

definition msg_not_configured :: string where
  "msg_not_configured =
     ''Supabase nao configurado. Configure as variaveis de ambiente para usar esta funcionalidade.''"

definition msg_not_created :: string where
  "msg_not_created = ''Produto nao foi criado no banco de dados. Tente novamente.''"

definition msg_create_fallback :: string where
  "msg_create_fallback = ''Erro ao criar produto''"

definition msg_temporary :: string where
  "msg_temporary = ''Nao e possivel atualizar um produto temporario. Crie o produto primeiro.''"

definition msg_not_found :: string where
  "msg_not_found =
     ''Produto nao encontrado no banco de dados. Ele pode ter sido excluido por outro usuario.''"

definition msg_not_found_for_update :: "string \<Rightarrow> string" where
  "msg_not_found_for_update pid = ''Produto com ID '' @ pid @ '' nao encontrado para atualizacao.''"

definition msg_unique :: string where
  "msg_unique = ''Ja existe um produto com este codigo ou nome. Use valores unicos.''"

definition msg_permission :: string where
  "msg_permission =
     ''Sem permissao para atualizar este produto. Verifique as politicas de seguranca.''"

definition msg_no_data :: string where
  "msg_no_data = ''Erro na atualizacao - dados nao retornados pelo banco.''"

definition msg_delete_fallback :: string where
  "msg_delete_fallback = ''Erro ao excluir produto''"

definition msg_fetch_fallback :: string where
  "msg_fetch_fallback = ''Erro ao carregar produtos''"

text \<open>
  The state of the hook: the three \<open>useState\<close> cells. The cell \<open>error\<close> of the source is
  written \<open>error_message\<close>, since \<open>error\<close> is the field of a response.
\<close>

record hook_state =
  products :: "DeliveryProduct list"
  loading :: bool
  error_message :: "string option"

subsection \<open>fetchProducts\<close>

text \<open>
  One product of the demo list in the shape of \<open>DeliveryProduct\<close>. Every reading of
  \<open>new Date().toISOString()\<close> within one call is taken at the instant \<open>now\<close>.
\<close>

definition mapped_product :: "string \<Rightarrow> DemoProduct \<Rightarrow> DeliveryProduct" where
  "mapped_product now product =
     \<lparr>id' = Some (DemoProduct.id' product),
      name = DemoProduct.name product,
      category = DemoProduct.category product,
      price = DemoProduct.price product,
      original_price = originalPrice product,
      description = DemoProduct.description product,
      image_url = image product,
      is_active = (isActive product \<noteq> Some False),
      is_weighable = (case DemoProduct.is_weighable product of None \<Rightarrow> False | Some b \<Rightarrow> b),
      price_per_gram = pricePerGram product,
      complement_groups = complementGroups product,
      sizes = DemoProduct.sizes product,
      scheduled_days = scheduledDays product,
      availability_type =
        Some (case availability product of
                None \<Rightarrow> ''always''
              | Some a \<Rightarrow> if type' a = [] then ''always'' else type' a),
      created_at = now,
      updated_at = now\<rparr>"

text \<open>
  The function never throws: its \<open>catch\<close> turns every failure into the error cell. The
  parameter \<open>imported\<close> is what \<open>await import('../data/products')\<close> gives, the list
  \<open>products\<close> of the module or a rejection; the import stands inside the \<open>try\<close>, so a
  rejection reaches the \<open>catch\<close> as a failed query does. The result is the state after the
  call and the requests sent.
\<close>

definition fetchProducts ::
  "env \<Rightarrow> backend \<Rightarrow> DemoProduct list awaited \<Rightarrow> string \<Rightarrow> hook_state
     \<Rightarrow> hook_state \<times> request list" where
  "fetchProducts e b imported now st =
     (let st1 = st\<lparr>loading := True, error_message := None\<rparr>;
          failed = (\<lambda>err. st1\<lparr>error_message := Some (message_or err msg_fetch_fallback),
                               products := [], loading := False\<rparr>)
      in if supabase_not_configured e then
           (case imported of
              Rejected err \<Rightarrow> (failed err, [])
            | Resolved demoProducts \<Rightarrow>
                (let mappedProducts = map (mapped_product now) demoProducts
                 in (st1\<lparr>products := mappedProducts, loading := False\<rparr>, [])))
         else
           (case select_all_order_name b of
              Rejected err \<Rightarrow> (failed err, [Select_all_order_name])
            | Resolved r \<Rightarrow>
                (case error r of
                   Some er \<Rightarrow> (failed (throw_error er), [Select_all_order_name])
                 | None \<Rightarrow>
                     (st1\<lparr>products := (case data r of None \<Rightarrow> [] | Some rows \<Rightarrow> rows),
                          loading := False\<rparr>,
                      [Select_all_order_name]))))"

subsection \<open>createProduct\<close>

text \<open>
  The body of the \<open>try\<close>, then the function with its \<open>catch\<close>, which wraps whatever was
  thrown in a new \<open>Error\<close>. The result is what the call returns or throws, the products
  list after it, and the requests sent.
\<close>

definition createProduct_try ::
  "env \<Rightarrow> backend \<Rightarrow> string \<Rightarrow> jsobj \<Rightarrow> DeliveryProduct list
     \<Rightarrow> (thrown + DeliveryProduct) \<times> DeliveryProduct list \<times> request list" where
  "createProduct_try e b now product prev =
     (if supabase_url_unusable e then (Inl (Error msg_not_configured), prev, [])
      else
        (let row = set_prop ''updated_at'' (Str now) (set_prop ''created_at'' (Str now) product);
             sent = [Insert_select_single row]
         in case insert_select_single b row of
              Rejected err \<Rightarrow> (Inl err, prev, sent)
            | Resolved r \<Rightarrow>
                (case error r of
                   Some er \<Rightarrow> (Inl (throw_error er), prev, sent)
                 | None \<Rightarrow>
                     (case data r of
                        None \<Rightarrow> (Inl (Error msg_not_created), prev, sent)
                      | Some d \<Rightarrow>
                          if no_id d then (Inl (Error msg_not_created), prev, sent)
                          else (Inr d, prev @ [d], sent)))))"

definition createProduct ::
  "env \<Rightarrow> backend \<Rightarrow> string \<Rightarrow> jsobj \<Rightarrow> DeliveryProduct list
     \<Rightarrow> (thrown + DeliveryProduct) \<times> DeliveryProduct list \<times> request list" where
  "createProduct e b now product prev =
     (case createProduct_try e b now product prev of
        (Inl err, ps, sent) \<Rightarrow> (Inl (Error (message_or err msg_create_fallback)), ps, sent)
      | (Inr d, ps, sent) \<Rightarrow> (Inr d, ps, sent))"

subsection \<open>updateProduct\<close>

text \<open>
  The write payload: the system fields are taken out of the patch, \<open>complement_groups\<close>
  is kept only when it is an array, the modification time is stamped, and the entries
  whose value is \<open>undefined\<close> are dropped.
\<close>

definition cleanUpdates :: "jsobj \<Rightarrow> jsobj" where
  "cleanUpdates updates =
     (let rest = filter (\<lambda>(k, v). k \<noteq> ''created_at'' \<and> k \<noteq> ''updated_at''
                               \<and> k \<noteq> ''has_complements'' \<and> k \<noteq> ''id'') updates
      in if truthy (get_prop rest ''complement_groups'') then
           set_prop ''complement_groups''
             (if isArray (get_prop rest ''complement_groups'')
              then get_prop rest ''complement_groups'' else Null) rest
         else rest)"

definition safeUpdate :: "string \<Rightarrow> jsobj \<Rightarrow> jsobj" where
  "safeUpdate now updates =
     filter (\<lambda>(k, v). v \<noteq> Undefined) (set_prop ''updated_at'' (Str now) (cleanUpdates updates))"

text \<open>The message for an error of the write, by its code.\<close>

definition update_error_message :: "string \<Rightarrow> PostgrestError \<Rightarrow> string" where
  "update_error_message pid er =
     (if code er = ''PGRST116'' then msg_not_found_for_update pid
      else if code er = ''23505'' then msg_unique
      else if code er = ''42501'' then msg_permission
      else ''Erro ao atualizar produto: ''
             @ (if message er = [] then ''Erro desconhecido'' else message er))"

text \<open>The \<open>catch\<close> of \<open>updateProduct\<close> throws again what it caught, so the body is the function.\<close>

definition updateProduct ::
  "env \<Rightarrow> backend \<Rightarrow> string \<Rightarrow> string \<Rightarrow> jsobj \<Rightarrow> DeliveryProduct list
     \<Rightarrow> (thrown + DeliveryProduct) \<times> DeliveryProduct list \<times> request list" where
  "updateProduct e b now pid updates prev =
     (if startsWith pid ''temp-'' \<or> startsWith pid ''demo-'' then
        (Inl (Error msg_temporary), prev, [])
      else if supabase_url_unusable e then (Inl (Error msg_not_configured), prev, [])
      else
        (case select_id_maybeSingle b pid of
           Rejected err \<Rightarrow> (Inl err, prev, [Select_id_maybeSingle pid])
         | Resolved chk \<Rightarrow>
             (case error chk of
                Some checkError \<Rightarrow>
                  (Inl (Error (''Erro ao verificar produto: '' @ message checkError)), prev,
                   [Select_id_maybeSingle pid])
              | None \<Rightarrow>
                  (case data chk of
                     None \<Rightarrow> (Inl (Error msg_not_found), prev, [Select_id_maybeSingle pid])
                   | Some existingProduct \<Rightarrow>
                       (let sent = [Select_id_maybeSingle pid,
                                    Update_eq_select_single pid (safeUpdate now updates)]
                        in case update_eq_select_single b pid (safeUpdate now updates) of
                             Rejected err \<Rightarrow> (Inl err, prev, sent)
                           | Resolved r \<Rightarrow>
                               (case error r of
                                  Some er \<Rightarrow> (Inl (Error (update_error_message pid er)), prev, sent)
                                | None \<Rightarrow>
                                    (case data r of
                                       None \<Rightarrow> (Inl (Error msg_no_data), prev, sent)
                                     | Some d \<Rightarrow>
                                         if no_id d then (Inl (Error msg_no_data), prev, sent)
                                         else (Inr d,
                                               map (\<lambda>p. if id' p = Some pid then d else p) prev,
                                               sent))))))))"

subsection \<open>validateProductExists\<close>

definition validateProductExists_try :: "backend \<Rightarrow> string \<Rightarrow> (thrown + bool) \<times> request list" where
  "validateProductExists_try b pid =
     (if startsWith pid ''temp-'' \<or> startsWith pid ''demo-'' then (Inr False, [])
      else
        (case select_id_maybeSingle b pid of
           Rejected err \<Rightarrow> (Inl err, [Select_id_maybeSingle pid])
         | Resolved r \<Rightarrow>
             (case error r of
                Some er \<Rightarrow> (Inr False, [Select_id_maybeSingle pid])
              | None \<Rightarrow> (Inr (data r \<noteq> None), [Select_id_maybeSingle pid]))))"

definition validateProductExists :: "backend \<Rightarrow> string \<Rightarrow> (thrown + bool) \<times> request list" where
  "validateProductExists b pid =
     (case validateProductExists_try b pid of
        (Inl err, sent) \<Rightarrow> (Inr False, sent)
      | (Inr v, sent) \<Rightarrow> (Inr v, sent))"

subsection \<open>deleteProduct\<close>

definition deleteProduct_try ::
  "backend \<Rightarrow> string \<Rightarrow> DeliveryProduct list \<Rightarrow> (thrown + unit) \<times> DeliveryProduct list \<times> request list" where
  "deleteProduct_try b pid prev =
     (case delete_eq b pid of
        Rejected err \<Rightarrow> (Inl err, prev, [Delete_eq pid])
      | Resolved r \<Rightarrow>
          (case error r of
             Some er \<Rightarrow> (Inl (throw_error er), prev, [Delete_eq pid])
           | None \<Rightarrow> (Inr (), filter (\<lambda>p. id' p \<noteq> Some pid) prev, [Delete_eq pid])))"

definition deleteProduct ::
  "backend \<Rightarrow> string \<Rightarrow> DeliveryProduct list \<Rightarrow> (thrown + unit) \<times> DeliveryProduct list \<times> request list" where
  "deleteProduct b pid prev =
     (case deleteProduct_try b pid prev of
        (Inl err, ps, sent) \<Rightarrow> (Inl (Error (message_or err msg_delete_fallback)), ps, sent)
      | (Inr u, ps, sent) \<Rightarrow> (Inr u, ps, sent))"

section \<open>The order card: elapsed time\<close>

text \<open>
  \<open>updateTimer\<close> of \<open>DeliveryOrderCard\<close>, as a function of the two \<open>getTime()\<close> readings in
  milliseconds. The creation time of an order whose \<open>created_at\<close> does not parse is \<open>NaN\<close>,
  here \<open>None\<close>; every number computed from it is \<open>NaN\<close> and every comparison with it is false.
\<close>

record timer_state =
  timeElapsed :: string
  isOverdue :: bool
  minutesElapsed :: "int option"

definition updateTimer :: "int \<Rightarrow> int option \<Rightarrow> timer_state" where
  "updateTimer now orderTime =
     (case orderTime of
        None \<Rightarrow> \<lparr>timeElapsed = ''NaNh NaNmin'', isOverdue = False, minutesElapsed = None\<rparr>
      | Some t \<Rightarrow>
          (let diffMs = now - t;
               diffMinutes = diffMs div (1000 * 60);
               diffHours = diffMinutes div 60;
               remainingMinutes = js_rem diffMinutes 60
           in \<lparr>timeElapsed =
                  (if diffMinutes < 60 then string_of_int diffMinutes @ ''min''
                   else string_of_int diffHours @ ''h '' @ string_of_int remainingMinutes @ ''min''),
                isOverdue = (diffMinutes > 20),
                minutesElapsed = Some diffMinutes\<rparr>))"

section \<open>Concrete rows and backends\<close>

text \<open>A row with a given id, for concrete runs.\<close>

definition sample_row :: "string \<Rightarrow> string \<Rightarrow> DeliveryProduct" where
  "sample_row k n =
     \<lparr>id' = Some k, name = n, category = ''acai'', price = 10, original_price = None,
      description = [], image_url = None, is_active = True, is_weighable = False,
      price_per_gram = None, complement_groups = Undefined, sizes = Undefined,
      scheduled_days = Undefined, availability_type = None,
      created_at = ''2025-07-27T19:40:41.000Z'', updated_at = ''2025-07-27T19:40:41.000Z''\<rparr>"

text \<open>An environment with credentials, and a backend that answers every query with neither
  data nor an error.\<close>

definition configured_env :: env where
  "configured_env =
     \<lparr>VITE_SUPABASE_URL = Some ''https://abc.supabase.co'',
      VITE_SUPABASE_ANON_KEY = Some ''anon-key''\<rparr>"

definition empty_backend :: backend where
  "empty_backend =
     \<lparr>select_all_order_name = Resolved \<lparr>data = None, error = None\<rparr>,
      insert_select_single = (\<lambda>row. Resolved \<lparr>data = None, error = None\<rparr>),
      select_id_maybeSingle = (\<lambda>pid. Resolved \<lparr>data = None, error = None\<rparr>),
      update_eq_select_single = (\<lambda>pid upd. Resolved \<lparr>data = None, error = None\<rparr>),
      delete_eq = (\<lambda>pid. Resolved \<lparr>data = (), error = None\<rparr>)\<rparr>"

text \<open>
  Two products of the demo list: one with every optional field absent, one with every
  optional field present.
\<close>

definition sample_demo_full :: DemoProduct where
  "sample_demo_full =
     \<lparr>DemoProduct.id' = ''demo-2'', DemoProduct.name = ''Combo Casal'',
      DemoProduct.category = ''combo'', DemoProduct.price = 45, originalPrice = Some 50,
      DemoProduct.description = ''Dois copos de 500ml'', image = Some ''https://img/combo.jpg'',
      isActive = Some False, DemoProduct.is_weighable = Some True, pricePerGram = Some (9 / 200),
      complementGroups = Arr [Obj [(''name'', Str ''Cremes'')]],
      DemoProduct.sizes = Arr [Str ''500ml''], scheduledDays = Obj [(''enabled'', Bool True)],
      availability = Some \<lparr>type' = ''scheduled''\<rparr>\<rparr>"

definition sample_demo :: DemoProduct where
  "sample_demo =
     \<lparr>DemoProduct.id' = ''demo-1'', DemoProduct.name = ''Acai 300ml'',
      DemoProduct.category = ''acai'', DemoProduct.price = 15, originalPrice = None,
      DemoProduct.description = ''Acai'', image = None, isActive = None,
      DemoProduct.is_weighable = None, pricePerGram = None, complementGroups = Undefined,
      DemoProduct.sizes = Undefined, scheduledDays = Undefined, availability = None\<rparr>"

section \<open>The realtime handler\<close>

lemma list_ex_id: "list_ex (\<lambda>p. id' p = k) ps \<longleftrightarrow> k \<in> id' ` set ps"
  by (induction ps) auto

lemma map_replace_absent:
  "k \<notin> id' ` set ps \<Longrightarrow> map (\<lambda>p. if id' p = k then r else p) ps = ps"
  by (induction ps) auto

lemma filter_remove_absent:
  "k \<notin> id' ` set ps \<Longrightarrow> filter (\<lambda>p. id' p \<noteq> k) ps = ps"
  by (induction ps) auto

text \<open>
  C2. An INSERT notification carrying the row \<open>r\<close>: when a record of the list has the id
  of \<open>r\<close>, the list is returned as it is; otherwise \<open>r\<close> is appended at the end and the
  records already there keep their values and order. Applying the notification twice
  gives what applying it once gives.
\<close>

theorem insert_notification_idempotent_or_append:
  assumes "eventType pl = ''INSERT''" and "new pl = Some r"
  shows "(id' r \<in> id' ` set prev \<longrightarrow> on_postgres_changes pl prev = prev)
       \<and> (id' r \<notin> id' ` set prev \<longrightarrow> on_postgres_changes pl prev = prev @ [r])
       \<and> on_postgres_changes pl (on_postgres_changes pl prev) = on_postgres_changes pl prev"
  using assms by (auto simp: on_postgres_changes_def list_ex_id)

theorem insert_notification_witness:
  "on_postgres_changes \<lparr>eventType = ''INSERT'', new = Some (sample_row ''k2'' ''B''), old = None\<rparr>
     [sample_row ''k1'' ''A'']
     = [sample_row ''k1'' ''A'', sample_row ''k2'' ''B'']
   \<and> on_postgres_changes \<lparr>eventType = ''INSERT'', new = Some (sample_row ''k1'' ''B''), old = None\<rparr>
     [sample_row ''k1'' ''A'']
     = [sample_row ''k1'' ''A'']"
  using insert_notification_idempotent_or_append
          [of "\<lparr>eventType = ''INSERT'', new = Some (sample_row ''k2'' ''B''), old = None\<rparr>"
              "sample_row ''k2'' ''B''" "[sample_row ''k1'' ''A'']"]
        insert_notification_idempotent_or_append
          [of "\<lparr>eventType = ''INSERT'', new = Some (sample_row ''k1'' ''B''), old = None\<rparr>"
              "sample_row ''k1'' ''B''" "[sample_row ''k1'' ''A'']"]
  by (simp add: sample_row_def)

text \<open>
  C7. An UPDATE notification carrying the row \<open>r\<close> with key \<open>k\<close>, and a DELETE
  notification whose old row has key \<open>k\<close>. When no record of the list has key \<open>k\<close>, both
  return the list as it is. In general the UPDATE keeps the length and puts \<open>r\<close> at the
  positions that held key \<open>k\<close>, every other position unchanged; the DELETE keeps, in order,
  the records whose key is not \<open>k\<close>, and none with key \<open>k\<close> is left.
\<close>

theorem update_delete_notifications:
  assumes "eventType u = ''UPDATE''" and "new u = Some r" and "id' r = k"
      and "eventType dl = ''DELETE''" and "old dl = Some gone" and "id' gone = k"
  shows "(k \<notin> id' ` set prev \<longrightarrow>
            on_postgres_changes u prev = prev \<and> on_postgres_changes dl prev = prev)
       \<and> length (on_postgres_changes u prev) = length prev
       \<and> (\<forall>i<length prev.
            on_postgres_changes u prev ! i = (if id' (prev ! i) = k then r else prev ! i))
       \<and> on_postgres_changes dl prev = filter (\<lambda>p. id' p \<noteq> k) prev
       \<and> k \<notin> id' ` set (on_postgres_changes dl prev)"
  using assms
  by (auto simp: on_postgres_changes_def map_replace_absent filter_remove_absent)

theorem update_delete_notifications_witness:
  "on_postgres_changes \<lparr>eventType = ''UPDATE'', new = Some (sample_row ''k3'' ''B''), old = None\<rparr>
     [sample_row ''k1'' ''A'', sample_row ''k2'' ''C'']
     = [sample_row ''k1'' ''A'', sample_row ''k2'' ''C'']
   \<and> on_postgres_changes \<lparr>eventType = ''DELETE'', new = None, old = Some (sample_row ''k3'' ''B'')\<rparr>
     [sample_row ''k1'' ''A'', sample_row ''k2'' ''C'']
     = [sample_row ''k1'' ''A'', sample_row ''k2'' ''C'']
   \<and> on_postgres_changes \<lparr>eventType = ''UPDATE'', new = Some (sample_row ''k1'' ''B''), old = None\<rparr>
     [sample_row ''k1'' ''A'', sample_row ''k2'' ''C'']
     = [sample_row ''k1'' ''B'', sample_row ''k2'' ''C'']
   \<and> on_postgres_changes \<lparr>eventType = ''DELETE'', new = None, old = Some (sample_row ''k1'' ''B'')\<rparr>
     [sample_row ''k1'' ''A'', sample_row ''k2'' ''C'']
     = [sample_row ''k2'' ''C'']"
  using update_delete_notifications
          [of "\<lparr>eventType = ''UPDATE'', new = Some (sample_row ''k3'' ''B''), old = None\<rparr>"
              "sample_row ''k3'' ''B''" "Some ''k3''"
              "\<lparr>eventType = ''DELETE'', new = None, old = Some (sample_row ''k3'' ''B'')\<rparr>"
              "sample_row ''k3'' ''B''" "[sample_row ''k1'' ''A'', sample_row ''k2'' ''C'']"]
        update_delete_notifications
          [of "\<lparr>eventType = ''UPDATE'', new = Some (sample_row ''k1'' ''B''), old = None\<rparr>"
              "sample_row ''k1'' ''B''" "Some ''k1''"
              "\<lparr>eventType = ''DELETE'', new = None, old = Some (sample_row ''k1'' ''B'')\<rparr>"
              "sample_row ''k1'' ''B''" "[sample_row ''k1'' ''A'', sample_row ''k2'' ''C'']"]
  by (simp add: sample_row_def on_postgres_changes_def)

section \<open>One entry per key\<close>

text \<open>
  The realtime handler (one notification, and so any sequence of them), \<open>deleteProduct\<close>
  and \<open>updateProduct\<close> (when the backend returns the row it was asked to update) keep a
  list free of duplicate keys. \<open>createProduct\<close>
  appends the created row without looking for its key in the list: it keeps the list
  free of duplicates exactly when the key of the created row is not there yet.
\<close>

lemma ids_after_replace:
  "id' r = k \<Longrightarrow> map (id' \<circ> (\<lambda>p. if id' p = k then r else p)) ps = map id' ps"
  by (induction ps) auto

lemma on_postgres_changes_distinct:
  "distinct (map id' prev) \<Longrightarrow> distinct (map id' (on_postgres_changes pl prev))"
  by (auto simp: on_postgres_changes_def list_ex_id ids_after_replace distinct_map_filter
           split: option.splits)

lemma notifications_distinct:
  "distinct (map id' prev) \<Longrightarrow> distinct (map id' (fold on_postgres_changes pls prev))"
  by (induction pls arbitrary: prev) (simp_all add: on_postgres_changes_distinct)

lemma deleteProduct_distinct:
  "distinct (map id' prev) \<Longrightarrow> distinct (map id' (fst (snd (deleteProduct b pid prev))))"
  by (auto simp: deleteProduct_def deleteProduct_try_def distinct_map_filter
           split: awaited.splits option.splits)

lemma updateProduct_distinct:
  "distinct (map id' prev) \<Longrightarrow> updateProduct e b now pid updates prev = (res, ps, sent)
     \<Longrightarrow> (\<And>d. res = Inr d \<Longrightarrow> id' d = Some pid) \<Longrightarrow> distinct (map id' ps)"
  by (auto simp: updateProduct_def Let_def ids_after_replace
           split: if_splits awaited.splits option.splits)

lemma createProduct_products:
  "createProduct e b now product prev = (res, ps, sent) \<Longrightarrow>
     (case res of Inl err \<Rightarrow> ps = prev | Inr d \<Rightarrow> ps = prev @ [d])"
  by (auto simp: createProduct_def createProduct_try_def Let_def
           split: if_splits awaited.splits option.splits)

lemma createProduct_distinct:
  "distinct (map id' prev) \<Longrightarrow> createProduct e b now product prev = (Inr d, ps, sent)
     \<Longrightarrow> distinct (map id' ps) \<longleftrightarrow> id' d \<notin> id' ` set prev"
  using createProduct_products[of e b now product prev "Inr d" ps sent] by auto

text \<open>
  C1. The claim: along every interleaving of notifications and calls, starting from a list
  without duplicates, the list has at most one entry per key, and a key that arrives both
  through a \<open>createProduct\<close> success and through an INSERT notification gives one entry.
  The run below starts from the empty list; the INSERT notification for the row with key
  \<open>K\<close> comes first, then the \<open>createProduct\<close> call that created that row returns it. The
  list then holds the row twice. (The credentials are configured, so the subscription
  that delivers the notification is set up.)
\<close>

theorem realtime_insert_then_createProduct_duplicates:
  "\<not> supabase_not_configured configured_env
   \<and> on_postgres_changes \<lparr>eventType = ''INSERT'', new = Some (sample_row ''K'' ''X''), old = None\<rparr> []
     = [sample_row ''K'' ''X'']
   \<and> createProduct configured_env
        (empty_backend\<lparr>insert_select_single :=
           (\<lambda>row. Resolved \<lparr>data = Some (sample_row ''K'' ''X''), error = None\<rparr>)\<rparr>)
        ''2025-07-27T19:40:41.000Z'' [(''name'', Str ''X''), (''price'', Num 10)]
        (on_postgres_changes
           \<lparr>eventType = ''INSERT'', new = Some (sample_row ''K'' ''X''), old = None\<rparr> [])
     = (Inr (sample_row ''K'' ''X''),
        [sample_row ''K'' ''X'', sample_row ''K'' ''X''],
        [Insert_select_single
           [(''name'', Str ''X''), (''price'', Num 10),
            (''created_at'', Str ''2025-07-27T19:40:41.000Z''),
            (''updated_at'', Str ''2025-07-27T19:40:41.000Z'')]])
   \<and> \<not> distinct (map id' [sample_row ''K'' ''X'', sample_row ''K'' ''X''])"
  by (simp add: on_postgres_changes_def createProduct_def createProduct_try_def configured_env_def
      empty_backend_def supabase_url_unusable_def supabase_not_configured_def startsWith_def
      no_id_def sample_row_def)

section \<open>createProduct\<close>

text \<open>
  C5. The created row is appended to the list only when the insert resolves without an
  error and with a row whose id is a non-empty string; the call then returns that row. When
  the insert resolves without an error but with no row, or with a row without an id, the
  call throws the error \<open>msg_not_created\<close>, which the hook raises itself, and the list is as
  before. When the backend reports an error, the call throws that error's message (or the
  fallback message, which differs from \<open>msg_not_created\<close>), and the list is as before.
\<close>

theorem createProduct_appends_only_with_key:
  fixes e b now product prev
  defines "row \<equiv> set_prop ''updated_at'' (Str now) (set_prop ''created_at'' (Str now) product)"
  shows "(\<forall>r. \<not> supabase_url_unusable e \<and> insert_select_single b row = Resolved r
              \<and> error r = None \<and> (data r = None \<or> (\<exists>d. data r = Some d \<and> no_id d))
            \<longrightarrow> createProduct e b now product prev
                  = (Inl (Error msg_not_created), prev, [Insert_select_single row]))
       \<and> (\<forall>r er. \<not> supabase_url_unusable e \<and> insert_select_single b row = Resolved r
              \<and> error r = Some er
            \<longrightarrow> createProduct e b now product prev
                  = (Inl (Error (if instanceof_Error er then message er else msg_create_fallback)),
                     prev, [Insert_select_single row]))
       \<and> (\<forall>res ps sent. createProduct e b now product prev = (res, ps, sent) \<and> ps \<noteq> prev
            \<longrightarrow> (\<exists>r d s. insert_select_single b row = Resolved r \<and> error r = None
                          \<and> data r = Some d \<and> id' d = Some s \<and> s \<noteq> []
                          \<and> res = Inr d \<and> ps = prev @ [d]))
       \<and> msg_not_created \<noteq> msg_create_fallback"
  unfolding row_def
  by (auto simp: createProduct_def createProduct_try_def Let_def no_id_def throw_error_def
                 msg_not_created_def msg_create_fallback_def
           split: if_splits awaited.splits option.splits)

theorem createProduct_appends_only_with_key_witness:
  "createProduct configured_env empty_backend ''2025-07-27T19:40:41.000Z''
     [(''name'', Str ''X'')] [sample_row ''k1'' ''A'']
     = (Inl (Error msg_not_created), [sample_row ''k1'' ''A''],
        [Insert_select_single
           [(''name'', Str ''X''), (''created_at'', Str ''2025-07-27T19:40:41.000Z''),
            (''updated_at'', Str ''2025-07-27T19:40:41.000Z'')]])
   \<and> createProduct configured_env
        (empty_backend\<lparr>insert_select_single :=
           (\<lambda>row. Resolved \<lparr>data = Some ((sample_row ''k2'' ''X'')\<lparr>id' := None\<rparr>), error = None\<rparr>)\<rparr>)
        ''2025-07-27T19:40:41.000Z'' [(''name'', Str ''X'')] [sample_row ''k1'' ''A'']
     = (Inl (Error msg_not_created), [sample_row ''k1'' ''A''],
        [Insert_select_single
           [(''name'', Str ''X''), (''created_at'', Str ''2025-07-27T19:40:41.000Z''),
            (''updated_at'', Str ''2025-07-27T19:40:41.000Z'')]])
   \<and> createProduct configured_env
        (empty_backend\<lparr>insert_select_single :=
           (\<lambda>row. Resolved \<lparr>data = None,
              error = Some \<lparr>code = ''23505'', message = ''duplicate key'',
                            instanceof_Error = True\<rparr>\<rparr>)\<rparr>)
        ''2025-07-27T19:40:41.000Z'' [(''name'', Str ''X'')] [sample_row ''k1'' ''A'']
     = (Inl (Error ''duplicate key''), [sample_row ''k1'' ''A''],
        [Insert_select_single
           [(''name'', Str ''X''), (''created_at'', Str ''2025-07-27T19:40:41.000Z''),
            (''updated_at'', Str ''2025-07-27T19:40:41.000Z'')]])
   \<and> createProduct configured_env
        (empty_backend\<lparr>insert_select_single :=
           (\<lambda>row. Resolved \<lparr>data = Some (sample_row ''k2'' ''X''), error = None\<rparr>)\<rparr>)
        ''2025-07-27T19:40:41.000Z'' [(''name'', Str ''X'')] [sample_row ''k1'' ''A'']
     = (Inr (sample_row ''k2'' ''X''), [sample_row ''k1'' ''A'', sample_row ''k2'' ''X''],
        [Insert_select_single
           [(''name'', Str ''X''), (''created_at'', Str ''2025-07-27T19:40:41.000Z''),
            (''updated_at'', Str ''2025-07-27T19:40:41.000Z'')]])"
  using createProduct_appends_only_with_key
          [of configured_env empty_backend "''2025-07-27T19:40:41.000Z''" "[(''name'', Str ''X'')]"
              "[sample_row ''k1'' ''A'']"]
  by (simp add: createProduct_def createProduct_try_def configured_env_def empty_backend_def
      supabase_url_unusable_def startsWith_def no_id_def sample_row_def throw_error_def)

section \<open>updateProduct\<close>

text \<open>
  C9. For an id that starts with \<open>temp-\<close> or \<open>demo-\<close>, \<open>updateProduct\<close> throws the
  validation error \<open>msg_temporary\<close>, sends no request to the backend, and leaves the list as
  it was.
\<close>

theorem updateProduct_rejects_temporary_id:
  assumes "startsWith pid ''temp-'' \<or> startsWith pid ''demo-''"
  shows "updateProduct e b now pid updates prev = (Inl (Error msg_temporary), prev, [])"
  using assms by (simp add: updateProduct_def)

theorem updateProduct_rejects_temporary_id_witness:
  "startsWith ''temp-17'' ''temp-''
   \<and> updateProduct configured_env empty_backend ''2025-07-27T19:40:41.000Z'' ''temp-17''
        [(''price'', Num 12)] [sample_row ''k1'' ''A'']
      = (Inl (Error msg_temporary), [sample_row ''k1'' ''A''], [])
   \<and> startsWith ''demo-1'' ''demo-''
   \<and> updateProduct configured_env empty_backend ''2025-07-27T19:40:41.000Z'' ''demo-1''
        [(''price'', Num 12)] [sample_row ''k1'' ''A'']
      = (Inl (Error msg_temporary), [sample_row ''k1'' ''A''], [])"
proof -
  have t: "startsWith ''temp-17'' ''temp-''" and d: "startsWith ''demo-1'' ''demo-''"
    by (simp_all add: startsWith_def)
  from t have t': "startsWith ''temp-17'' ''temp-'' \<or> startsWith ''temp-17'' ''demo-''" ..
  from d have d': "startsWith ''demo-1'' ''temp-'' \<or> startsWith ''demo-1'' ''demo-''" ..
  show ?thesis
    using t d updateProduct_rejects_temporary_id[OF t'] updateProduct_rejects_temporary_id[OF d']
    by simp
qed

text \<open>
  C3, as the code has it. The id is not a placeholder, the credentials are there, and
  the existence check resolves without an error. When the check finds no row, the call throws
  the not-found error \<open>msg_not_found\<close>, sends no write, and leaves the list as it was. When
  the check finds the row and the write then reports zero rows (code \<open>PGRST116\<close>), the
  call throws too, with the different message \<open>msg_not_found_for_update\<close>, and leaves the list
  as it was.
\<close>

theorem updateProduct_missing_key_versus_zero_rows:
  assumes "\<not> startsWith pid ''temp-''" and "\<not> startsWith pid ''demo-''"
      and "\<not> supabase_url_unusable e"
      and "select_id_maybeSingle b pid = Resolved chk" and "error chk = None"
  shows "(data chk = None \<longrightarrow>
            updateProduct e b now pid updates prev
              = (Inl (Error msg_not_found), prev, [Select_id_maybeSingle pid]))
       \<and> (\<forall>r er. data chk \<noteq> None
              \<and> update_eq_select_single b pid (safeUpdate now updates) = Resolved r
              \<and> error r = Some er \<and> code er = ''PGRST116''
            \<longrightarrow> updateProduct e b now pid updates prev
                  = (Inl (Error (msg_not_found_for_update pid)), prev,
                     [Select_id_maybeSingle pid,
                      Update_eq_select_single pid (safeUpdate now updates)]))
       \<and> msg_not_found \<noteq> msg_not_found_for_update pid"
  using assms
  by (auto simp: updateProduct_def Let_def update_error_message_def msg_not_found_def
                 msg_not_found_for_update_def)

theorem updateProduct_missing_key_versus_zero_rows_witness:
  "updateProduct configured_env empty_backend ''2025-07-27T19:40:41.000Z'' ''K''
     [(''price'', Num 12)] [sample_row ''k1'' ''A'']
     = (Inl (Error msg_not_found), [sample_row ''k1'' ''A''], [Select_id_maybeSingle ''K''])
   \<and> updateProduct configured_env
        (empty_backend\<lparr>
           select_id_maybeSingle := (\<lambda>pid. Resolved \<lparr>data = Some \<lparr>row_id = pid\<rparr>, error = None\<rparr>),
           update_eq_select_single := (\<lambda>pid upd. Resolved
              \<lparr>data = None,
               error = Some \<lparr>code = ''PGRST116'', message = ''0 rows'',
                             instanceof_Error = False\<rparr>\<rparr>)\<rparr>)
        ''2025-07-27T19:40:41.000Z'' ''k1'' [(''price'', Num 12)] [sample_row ''k1'' ''A'']
     = (Inl (Error (msg_not_found_for_update ''k1'')), [sample_row ''k1'' ''A''],
        [Select_id_maybeSingle ''k1'',
         Update_eq_select_single ''k1''
           [(''price'', Num 12), (''updated_at'', Str ''2025-07-27T19:40:41.000Z'')]])
   \<and> msg_not_found \<noteq> msg_not_found_for_update ''k1''"
  using updateProduct_missing_key_versus_zero_rows
          [of "''K''" configured_env empty_backend "\<lparr>data = None, error = None\<rparr>"
              "''2025-07-27T19:40:41.000Z''" "[(''price'', Num 12)]" "[sample_row ''k1'' ''A'']"]
        updateProduct_missing_key_versus_zero_rows
          [of "''k1''" configured_env
              "empty_backend\<lparr>
                 select_id_maybeSingle := (\<lambda>pid. Resolved \<lparr>data = Some \<lparr>row_id = pid\<rparr>, error = None\<rparr>),
                 update_eq_select_single := (\<lambda>pid upd. Resolved
                    \<lparr>data = None,
                     error = Some \<lparr>code = ''PGRST116'', message = ''0 rows'',
                                   instanceof_Error = False\<rparr>\<rparr>)\<rparr>"
              "\<lparr>data = Some \<lparr>row_id = ''k1''\<rparr>, error = None\<rparr>"
              "''2025-07-27T19:40:41.000Z''" "[(''price'', Num 12)]" "[sample_row ''k1'' ''A'']"]
  by (simp add: configured_env_def empty_backend_def supabase_url_unusable_def startsWith_def
      safeUpdate_def cleanUpdates_def get_prop_def)

text \<open>
  The claim C3 says that the call succeeds and returns the current record when the row
  exists and zero rows are affected. Here the existence check finds the row \<open>K\<close>, the write
  reports \<open>PGRST116\<close>, and the call throws.
\<close>

theorem updateProduct_zero_rows_raises:
  "updateProduct configured_env
     (empty_backend\<lparr>
        select_id_maybeSingle := (\<lambda>pid. Resolved \<lparr>data = Some \<lparr>row_id = pid\<rparr>, error = None\<rparr>),
        update_eq_select_single := (\<lambda>pid upd. Resolved
           \<lparr>data = None,
            error = Some \<lparr>code = ''PGRST116'', message = ''0 rows'', instanceof_Error = False\<rparr>\<rparr>)\<rparr>)
     ''2025-07-27T19:40:41.000Z'' ''K'' [(''price'', Num 10)] [sample_row ''K'' ''X'']
   = (Inl (Error ''Produto com ID K nao encontrado para atualizacao.''),
      [sample_row ''K'' ''X''],
      [Select_id_maybeSingle ''K'',
       Update_eq_select_single ''K''
         [(''price'', Num 10), (''updated_at'', Str ''2025-07-27T19:40:41.000Z'')]])"
  by (simp add: updateProduct_def configured_env_def empty_backend_def supabase_url_unusable_def
      startsWith_def safeUpdate_def cleanUpdates_def get_prop_def update_error_message_def
      msg_not_found_for_update_def)

subsection \<open>The write payload\<close>

lemma map_of_set_prop:
  "map_of (set_prop k v kvs) k' = (if k' = k then Some v else map_of kvs k')"
  by (induction kvs) auto

lemma keys_set_prop: "fst ` set (set_prop k v kvs) = insert k (fst ` set kvs)"
proof (induction kvs)
  case Nil
  show ?case by simp
next
  case (Cons kv kvs)
  then show ?case by (cases kv) (simp add: insert_commute)
qed

lemma distinct_set_prop:
  "distinct (map fst kvs) \<Longrightarrow> distinct (map fst (set_prop k v kvs))"
proof (induction kvs)
  case Nil
  show ?case by simp
next
  case (Cons kv kvs)
  obtain k' v' where kv: "kv = (k', v')" by (cases kv)
  from Cons.prems kv have fresh: "k' \<notin> fst ` set kvs" and d: "distinct (map fst kvs)"
    by auto
  show ?case
  proof (cases "k' = k")
    case True
    with kv fresh d show ?thesis by simp
  next
    case False
    with kv fresh Cons.IH[OF d] show ?thesis by (simp add: keys_set_prop)
  qed
qed

lemma map_of_filter_absent:
  "map_of kvs k = None \<Longrightarrow> map_of (filter P kvs) k = None"
  by (induction kvs) (auto split: if_splits)

lemma map_of_filter_distinct:
  "distinct (map fst kvs) \<Longrightarrow>
     map_of (filter P kvs) k =
       (case map_of kvs k of None \<Rightarrow> None | Some v \<Rightarrow> if P (k, v) then Some v else None)"
proof (induction kvs)
  case Nil
  then show ?case by simp
next
  case (Cons kv kvs)
  obtain k' v' where kv: "kv = (k', v')" by (cases kv)
  with Cons.prems have absent: "map_of kvs k' = None"
    by (simp add: map_of_eq_None_iff)
  show ?case
    using Cons kv absent by (auto simp: map_of_filter_absent)
qed

lemma distinct_cleanUpdates:
  "distinct (map fst updates) \<Longrightarrow> distinct (map fst (cleanUpdates updates))"
  by (simp add: cleanUpdates_def Let_def distinct_set_prop distinct_map_filter)

lemma map_of_cleanUpdates:
  assumes "distinct (map fst updates)"
  shows "map_of (cleanUpdates updates) k =
           (if k = ''created_at'' \<or> k = ''updated_at'' \<or> k = ''has_complements'' \<or> k = ''id''
            then None
            else if k = ''complement_groups'' \<and> truthy (get_prop updates ''complement_groups'')
            then Some (if isArray (get_prop updates ''complement_groups'')
                       then get_prop updates ''complement_groups'' else Null)
            else map_of updates k)"
  using assms
  by (auto simp: cleanUpdates_def Let_def map_of_set_prop map_of_filter_distinct get_prop_def
           split: option.splits)

text \<open>
  C8, as the code has it. For a patch with one entry per key, the write payload has no
  entry \<open>id\<close>, \<open>created_at\<close> or \<open>has_complements\<close>; its \<open>updated_at\<close> is the fresh stamp; no
  entry has the value \<open>undefined\<close>; every other defined entry of the patch is passed
  through, except \<open>complement_groups\<close>, which is passed through when it is an array or
  falsy and replaced by \<open>null\<close> when it is truthy and not an array.
\<close>

theorem safeUpdate_payload:
  assumes "distinct (map fst updates)"
  shows "map_of (safeUpdate now updates) ''id'' = None
       \<and> map_of (safeUpdate now updates) ''created_at'' = None
       \<and> map_of (safeUpdate now updates) ''has_complements'' = None
       \<and> map_of (safeUpdate now updates) ''updated_at'' = Some (Str now)
       \<and> (\<forall>k. map_of (safeUpdate now updates) k \<noteq> Some Undefined)
       \<and> (\<forall>k v. k \<notin> {''id'', ''created_at'', ''updated_at'', ''has_complements'',
                        ''complement_groups''}
                 \<and> map_of updates k = Some v \<and> v \<noteq> Undefined
                 \<longrightarrow> map_of (safeUpdate now updates) k = Some v)
       \<and> map_of (safeUpdate now updates) ''complement_groups'' =
           (if truthy (get_prop updates ''complement_groups'') then
              Some (if isArray (get_prop updates ''complement_groups'')
                    then get_prop updates ''complement_groups'' else Null)
            else if get_prop updates ''complement_groups'' = Undefined then None
            else Some (get_prop updates ''complement_groups''))"
proof -
  have d: "distinct (map fst (set_prop ''updated_at'' (Str now) (cleanUpdates updates)))"
    using assms by (simp add: distinct_set_prop distinct_cleanUpdates)
  have m: "map_of (safeUpdate now updates) k =
             (case (if k = ''updated_at'' then Some (Str now) else map_of (cleanUpdates updates) k) of
                None \<Rightarrow> None
              | Some v \<Rightarrow> if v \<noteq> Undefined then Some v else None)" for k
    unfolding safeUpdate_def map_of_filter_distinct[OF d]
    by (simp add: map_of_set_prop split: option.splits)
  note c = map_of_cleanUpdates[OF assms]
  show ?thesis
    by (auto simp: m c get_prop_def split: option.splits)
qed

theorem safeUpdate_payload_witness:
  "distinct (map fst [(''id'', Str ''K''), (''price'', Num 12), (''name'', Undefined),
                      (''complement_groups'', Arr [])])
   \<and> safeUpdate ''2025-07-27T19:40:41.000Z''
        [(''id'', Str ''K''), (''price'', Num 12), (''name'', Undefined),
         (''complement_groups'', Arr [])]
     = [(''price'', Num 12), (''complement_groups'', Arr []),
        (''updated_at'', Str ''2025-07-27T19:40:41.000Z'')]
   \<and> map_of (safeUpdate ''2025-07-27T19:40:41.000Z''
        [(''id'', Str ''K''), (''price'', Num 12), (''name'', Undefined),
         (''complement_groups'', Arr [])]) ''price'' = Some (Num 12)"
  using safeUpdate_payload
          [of "[(''id'', Str ''K''), (''price'', Num 12), (''name'', Undefined),
                (''complement_groups'', Arr [])]" "''2025-07-27T19:40:41.000Z''"]
  by (simp add: safeUpdate_def cleanUpdates_def get_prop_def)

text \<open>
  The claim C8 says that all other defined entries of the patch are passed through. The
  patch below has the defined entries \<open>has_complements\<close> and \<open>complement_groups\<close>; the first is
  dropped and the second is replaced by \<open>null\<close>.
\<close>

theorem safeUpdate_not_all_passed_through:
  "safeUpdate ''2025-07-27T19:40:41.000Z''
     [(''has_complements'', Bool True), (''complement_groups'', Str ''none'')]
   = [(''complement_groups'', Null), (''updated_at'', Str ''2025-07-27T19:40:41.000Z'')]"
  by (simp add: safeUpdate_def cleanUpdates_def get_prop_def)

section \<open>validateProductExists\<close>

text \<open>
  C10. \<open>validateProductExists\<close> always returns a boolean and never throws. For an id that
  starts with \<open>temp-\<close> or \<open>demo-\<close> it returns false and sends no request. Otherwise it sends
  the one lookup and returns false when the lookup is rejected or resolves with an error,
  and otherwise true exactly when the lookup found a row.
\<close>

theorem validateProductExists_total:
  "(\<exists>v. fst (validateProductExists b pid) = Inr v)
   \<and> (startsWith pid ''temp-'' \<or> startsWith pid ''demo-'' \<longrightarrow>
        validateProductExists b pid = (Inr False, []))
   \<and> (\<not> (startsWith pid ''temp-'' \<or> startsWith pid ''demo-'') \<longrightarrow>
        validateProductExists b pid =
          (Inr (case select_id_maybeSingle b pid of
                  Rejected err \<Rightarrow> False
                | Resolved r \<Rightarrow> error r = None \<and> data r \<noteq> None),
           [Select_id_maybeSingle pid]))"
  by (auto simp: validateProductExists_def validateProductExists_try_def
           split: awaited.splits option.splits)

theorem validateProductExists_total_witness:
  "validateProductExists empty_backend ''temp-17'' = (Inr False, [])
   \<and> validateProductExists empty_backend ''K'' = (Inr False, [Select_id_maybeSingle ''K''])
   \<and> validateProductExists
        (empty_backend\<lparr>select_id_maybeSingle :=
           (\<lambda>pid. Resolved \<lparr>data = Some \<lparr>row_id = pid\<rparr>, error = None\<rparr>)\<rparr>) ''K''
      = (Inr True, [Select_id_maybeSingle ''K''])
   \<and> validateProductExists
        (empty_backend\<lparr>select_id_maybeSingle := (\<lambda>pid. Rejected (Error ''Failed to fetch''))\<rparr>) ''K''
      = (Inr False, [Select_id_maybeSingle ''K''])
   \<and> validateProductExists
        (empty_backend\<lparr>select_id_maybeSingle :=
           (\<lambda>pid. Resolved \<lparr>data = Some \<lparr>row_id = pid\<rparr>,
              error = Some \<lparr>code = ''42501'', message = ''permission denied'',
                            instanceof_Error = False\<rparr>\<rparr>)\<rparr>) ''K''
      = (Inr False, [Select_id_maybeSingle ''K''])"
  using validateProductExists_total[of empty_backend "''temp-17''"]
        validateProductExists_total[of empty_backend "''K''"]
        validateProductExists_total
          [of "empty_backend\<lparr>select_id_maybeSingle :=
                 (\<lambda>pid. Resolved \<lparr>data = Some \<lparr>row_id = pid\<rparr>, error = None\<rparr>)\<rparr>" "''K''"]
        validateProductExists_total
          [of "empty_backend\<lparr>select_id_maybeSingle := (\<lambda>pid. Rejected (Error ''Failed to fetch''))\<rparr>"
              "''K''"]
        validateProductExists_total
          [of "empty_backend\<lparr>select_id_maybeSingle :=
           (\<lambda>pid. Resolved \<lparr>data = Some \<lparr>row_id = pid\<rparr>,
              error = Some \<lparr>code = ''42501'', message = ''permission denied'',
                            instanceof_Error = False\<rparr>\<rparr>)\<rparr>" "''K''"]
  by (simp add: startsWith_def empty_backend_def)

section \<open>fetchProducts\<close>

lemma not_configured_cases:
  "supabase_not_configured e \<longleftrightarrow>
     VITE_SUPABASE_URL e = None \<or> VITE_SUPABASE_URL e = Some [] \<or>
     VITE_SUPABASE_ANON_KEY e = None \<or> VITE_SUPABASE_ANON_KEY e = Some [] \<or>
     VITE_SUPABASE_URL e = Some ''your_supabase_url_here'' \<or>
     VITE_SUPABASE_ANON_KEY e = Some ''your_supabase_anon_key_here'' \<or>
     (\<exists>u. VITE_SUPABASE_URL e = Some u \<and> includes_str u ''placeholder'')"
  by (auto simp: supabase_not_configured_def split: option.splits)

text \<open>
  C6, as the code has it. When the credentials are absent or placeholders,
  \<open>fetchProducts\<close> sends no request. When the import of the demo module gives its list, the
  products become that list, product by product and in its order, in the shape of
  \<open>DeliveryProduct\<close>: the id, name, category, price, description, original price, image,
  price per gram, complement groups, sizes and scheduled days are those of the demo
  product; the product is active unless \<open>isActive\<close> is \<open>false\<close>; it is weighable only when
  \<open>is_weighable\<close> is \<open>true\<close>; the availability type is that of the demo product, or \<open>always\<close>
  when there is none or it is empty; both timestamps are the current instant. The loading
  flag is then cleared and the error cell is empty. When the import is rejected, the error
  cell holds the message of the rejection (or the fallback message), the products are
  emptied and the loading flag is cleared.
\<close>

theorem fetchProducts_demo_fallback:
  assumes "supabase_not_configured e"
  shows "(\<forall>demoProducts. imported = Resolved demoProducts \<longrightarrow>
            fetchProducts e b imported now st =
              (st\<lparr>products :=
                    map (\<lambda>product.
                           \<lparr>id' = Some (DemoProduct.id' product),
                            name = DemoProduct.name product,
                            category = DemoProduct.category product,
                            price = DemoProduct.price product,
                            original_price = originalPrice product,
                            description = DemoProduct.description product,
                            image_url = image product,
                            is_active = (isActive product \<noteq> Some False),
                            is_weighable = (DemoProduct.is_weighable product = Some True),
                            price_per_gram = pricePerGram product,
                            complement_groups = complementGroups product,
                            sizes = DemoProduct.sizes product,
                            scheduled_days = scheduledDays product,
                            availability_type =
                              (if availability product = None
                                  \<or> map_option type' (availability product) = Some []
                               then Some ''always''
                               else map_option type' (availability product)),
                            created_at = now,
                            updated_at = now\<rparr>)
                        demoProducts,
                  loading := False, error_message := None\<rparr>, []))
       \<and> (\<forall>err. imported = Rejected err \<longrightarrow>
            fetchProducts e b imported now st =
              (st\<lparr>products := [], loading := False,
                  error_message :=
                    Some (case err of Error m \<Rightarrow> m | NotAnError \<Rightarrow> ''Erro ao carregar produtos'')\<rparr>,
               []))"
proof -
  have row: "mapped_product now product =
               \<lparr>id' = Some (DemoProduct.id' product),
                name = DemoProduct.name product,
                category = DemoProduct.category product,
                price = DemoProduct.price product,
                original_price = originalPrice product,
                description = DemoProduct.description product,
                image_url = image product,
                is_active = (isActive product \<noteq> Some False),
                is_weighable = (DemoProduct.is_weighable product = Some True),
                price_per_gram = pricePerGram product,
                complement_groups = complementGroups product,
                sizes = DemoProduct.sizes product,
                scheduled_days = scheduledDays product,
                availability_type =
                  (if availability product = None
                      \<or> map_option type' (availability product) = Some []
                   then Some ''always''
                   else map_option type' (availability product)),
                created_at = now,
                updated_at = now\<rparr>" for product
    by (cases "DemoProduct.is_weighable product"; cases "availability product")
       (simp_all add: mapped_product_def)
  have msg: "message_or err msg_fetch_fallback
               = (case err of Error m \<Rightarrow> m | NotAnError \<Rightarrow> ''Erro ao carregar produtos'')" for err
    by (cases err) (simp_all add: msg_fetch_fallback_def)
  show ?thesis
    using assms by (simp add: fetchProducts_def Let_def row msg)
qed

theorem fetchProducts_demo_fallback_witness:
  "supabase_not_configured \<lparr>VITE_SUPABASE_URL = None, VITE_SUPABASE_ANON_KEY = None\<rparr>
   \<and> supabase_not_configured
        \<lparr>VITE_SUPABASE_URL = Some ''https://placeholder.supabase.co'',
         VITE_SUPABASE_ANON_KEY = Some ''anon-key''\<rparr>
   \<and> fetchProducts \<lparr>VITE_SUPABASE_URL = None, VITE_SUPABASE_ANON_KEY = None\<rparr> empty_backend
        (Resolved [sample_demo, sample_demo_full]) ''2025-07-27T19:40:41.000Z''
        \<lparr>products = [sample_row ''k1'' ''A''], loading = True, error_message = Some ''old''\<rparr>
      = (\<lparr>products =
            [\<lparr>id' = Some ''demo-1'', name = ''Acai 300ml'', category = ''acai'', price = 15,
              original_price = None, description = ''Acai'', image_url = None,
              is_active = True, is_weighable = False, price_per_gram = None,
              complement_groups = Undefined, sizes = Undefined, scheduled_days = Undefined,
              availability_type = Some ''always'',
              created_at = ''2025-07-27T19:40:41.000Z'',
              updated_at = ''2025-07-27T19:40:41.000Z''\<rparr>,
             \<lparr>id' = Some ''demo-2'', name = ''Combo Casal'', category = ''combo'', price = 45,
              original_price = Some 50, description = ''Dois copos de 500ml'',
              image_url = Some ''https://img/combo.jpg'',
              is_active = False, is_weighable = True, price_per_gram = Some (9 / 200),
              complement_groups = Arr [Obj [(''name'', Str ''Cremes'')]],
              sizes = Arr [Str ''500ml''], scheduled_days = Obj [(''enabled'', Bool True)],
              availability_type = Some ''scheduled'',
              created_at = ''2025-07-27T19:40:41.000Z'',
              updated_at = ''2025-07-27T19:40:41.000Z''\<rparr>],
          loading = False, error_message = None\<rparr>, [])
   \<and> fetchProducts
        \<lparr>VITE_SUPABASE_URL = Some ''https://placeholder.supabase.co'',
         VITE_SUPABASE_ANON_KEY = Some ''anon-key''\<rparr> empty_backend
        (Rejected NotAnError) ''2025-07-27T19:40:41.000Z''
        \<lparr>products = [sample_row ''k1'' ''A''], loading = True, error_message = None\<rparr>
      = (\<lparr>products = [], loading = False, error_message = Some ''Erro ao carregar produtos''\<rparr>,
         [])"
proof -
  have h: "supabase_not_configured \<lparr>VITE_SUPABASE_URL = None, VITE_SUPABASE_ANON_KEY = None\<rparr>"
    by (simp add: supabase_not_configured_def)
  have h': "supabase_not_configured
              \<lparr>VITE_SUPABASE_URL = Some ''https://placeholder.supabase.co'',
               VITE_SUPABASE_ANON_KEY = Some ''anon-key''\<rparr>"
    by (simp add: supabase_not_configured_def startsWith_def)
  show ?thesis
    using h h'
      fetchProducts_demo_fallback[OF h, of "Resolved [sample_demo, sample_demo_full]" empty_backend
        "''2025-07-27T19:40:41.000Z''"
        "\<lparr>products = [sample_row ''k1'' ''A''], loading = True, error_message = Some ''old''\<rparr>"]
      fetchProducts_demo_fallback[OF h', of "Rejected NotAnError" empty_backend
        "''2025-07-27T19:40:41.000Z''"
        "\<lparr>products = [sample_row ''k1'' ''A''], loading = True, error_message = None\<rparr>"]
    by (simp add: sample_demo_def sample_demo_full_def)
qed

text \<open>
  The claim C6 says that with absent credentials \<open>fetchProducts\<close> sets no error and sets
  the demo list. Here the credentials are absent and the import of the demo module is
  rejected: the error cell is set and the products are emptied.
\<close>

theorem fetchProducts_import_rejected_sets_error:
  "fetchProducts \<lparr>VITE_SUPABASE_URL = None, VITE_SUPABASE_ANON_KEY = None\<rparr> empty_backend
     (Rejected (Error ''Failed to fetch dynamically imported module''))
     ''2025-07-27T19:40:41.000Z''
     \<lparr>products = [sample_row ''k1'' ''A''], loading = True, error_message = None\<rparr>
   = (\<lparr>products = [], loading = False,
       error_message = Some ''Failed to fetch dynamically imported module''\<rparr>, [])"
  by (simp add: fetchProducts_def supabase_not_configured_def)

section \<open>Elapsed time on the order card\<close>

lemma js_rem_nonneg: "0 \<le> a \<Longrightarrow> js_rem a 60 = a mod 60"
  by (cases "a = 0") (simp_all add: js_rem_def)

text \<open>
  C4, as the code has it. For an order created exactly 45 minutes before the current
  time the label is \<open>45min\<close> and the order is overdue. In general the overdue flag is true
  exactly when the elapsed whole minutes exceed 20, and the label has the form with
  hours only from 60 minutes on.
\<close>

theorem updateTimer_label_and_overdue:
  "timeElapsed (updateTimer now (Some (now - 45 * 60000))) = ''45min''
   \<and> isOverdue (updateTimer now (Some (now - 45 * 60000)))
   \<and> isOverdue (updateTimer now (Some t)) = (20 < (now - t) div 60000)
   \<and> minutesElapsed (updateTimer now (Some t)) = Some ((now - t) div 60000)
   \<and> timeElapsed (updateTimer now (Some t)) =
        (if (now - t) div 60000 < 60 then string_of_int ((now - t) div 60000) @ ''min''
         else string_of_int ((now - t) div 60000 div 60) @ ''h ''
              @ string_of_int ((now - t) div 60000 mod 60) @ ''min'')"
  by (simp add: updateTimer_def Let_def string_of_int_def digit_char_def js_rem_nonneg)

text \<open>
  The claim C4 says that the label at 45 minutes is \<open>0h 45min\<close>. It is \<open>45min\<close>.
\<close>

theorem updateTimer_45_minutes_label:
  "timeElapsed (updateTimer 1753648841000 (Some (1753648841000 - 45 * 60000))) = ''45min''
   \<and> timeElapsed (updateTimer 1753648841000 (Some (1753648841000 - 45 * 60000))) \<noteq> ''0h 45min''"
  by (simp add: updateTimer_def Let_def string_of_int_def digit_char_def js_rem_def)

end
